theory Spec2Isabelle
  imports Main
begin

section \<open>Python values used by \<^verbatim>\<open>main.py\<close>\<close>

text \<open>
  A Python \<^verbatim>\<open>str\<close> is modelled by the \<^typ>\<open>string\<close> of its UTF-8 bytes. The only
  operation the handlers apply to a string is \<^verbatim>\<open>json.dumps(..., ensure_ascii=False)\<close>,
  which rewrites the characters below \<^verbatim>\<open>0x20\<close>, the double quote and the backslash and
  copies every other character; all of these are single bytes in UTF-8, so the escaping
  acts on the bytes exactly as it acts on the code points. Python integers are unbounded:
  \<^typ>\<open>int\<close>. A Python \<^verbatim>\<open>float\<close> is kept abstract (the type variable \<open>'f\<close>); its
  rendering by \<^verbatim>\<open>json.dumps\<close> is the parameter \<open>floatstr\<close>.
\<close>

datatype 'f json =
    JNull
  | JBool bool
  | JInt int
  | JFloat 'f
  | JStr string
  | JArr "'f json list"
  | JObj "(string \<times> 'f json) list"

subsection \<open>Decimal rendering\<close>

definition digit_char :: "nat \<Rightarrow> char" where
  "digit_char n = ''0123456789'' ! n"

function str_nat :: "nat \<Rightarrow> string" where
  "str_nat n = (if n < 10 then [digit_char n] else str_nat (n div 10) @ [digit_char (n mod 10)])"
  by pat_completeness auto
termination
  by (relation "measure id") auto

declare str_nat.simps [simp del]

text \<open>\<^verbatim>\<open>int.__repr__\<close>, which \<^verbatim>\<open>json.dumps\<close> uses for integers.\<close>

definition str_int :: "int \<Rightarrow> string" where
  "str_int i = (if i < 0 then CHR ''-'' # str_nat (nat (- i)) else str_nat (nat i))"

text \<open>The format \<^verbatim>\<open>%0wd\<close> applied to a natural number.\<close>

definition zero_pad :: "nat \<Rightarrow> nat \<Rightarrow> string" where
  "zero_pad w n = replicate (w - length (str_nat n)) CHR ''0'' @ str_nat n"

subsection \<open>\<^verbatim>\<open>datetime.date\<close>\<close>

record date =
  year :: nat
  month :: nat
  day :: nat

definition is_leap :: "nat \<Rightarrow> bool" where
  "is_leap y = (y mod 4 = 0 \<and> (y mod 100 \<noteq> 0 \<or> y mod 400 = 0))"

definition days_in_month :: "nat \<Rightarrow> nat \<Rightarrow> nat" where
  "days_in_month y m =
     (if m = 2 then (if is_leap y then 29 else 28)
      else if m = 4 \<or> m = 6 \<or> m = 9 \<or> m = 11 then 30
      else 31)"

text \<open>
  The values a \<^verbatim>\<open>date\<close> object can hold (\<^verbatim>\<open>MINYEAR = 1\<close>, \<^verbatim>\<open>MAXYEAR = 9999\<close>); the
  framework hands the handlers nothing else.
\<close>

definition valid_date :: "date \<Rightarrow> bool" where
  "valid_date d =
     (1 \<le> year d \<and> year d \<le> 9999 \<and> 1 \<le> month d \<and> month d \<le> 12 \<and>
      1 \<le> day d \<and> day d \<le> days_in_month (year d) (month d))"

text \<open>\<^verbatim>\<open>date.isoformat\<close>: \<^verbatim>\<open>"%04d-%02d-%02d" % (year, month, day)\<close>.\<close>

definition isoformat :: "date \<Rightarrow> string" where
  "isoformat d = zero_pad 4 (year d) @ ''-'' @ zero_pad 2 (month d) @ ''-'' @ zero_pad 2 (day d)"

text \<open>The shape \<^verbatim>\<open>YYYY-MM-DD\<close>, and the reading of such a text as three numbers.\<close>

definition is_digit :: "char \<Rightarrow> bool" where
  "is_digit c = (c \<in> set ''0123456789'')"

definition digit_val :: "char \<Rightarrow> nat" where
  "digit_val c = of_char c - 48"

definition nat_of_digits :: "string \<Rightarrow> nat" where
  "nat_of_digits s = foldl (\<lambda>a c. 10 * a + digit_val c) 0 s"

definition is_iso_date :: "string \<Rightarrow> bool" where
  "is_iso_date s =
     (length s = 10 \<and> list_all is_digit (take 4 s) \<and> s ! 4 = CHR ''-'' \<and>
      list_all is_digit (take 2 (drop 5 s)) \<and> s ! 7 = CHR ''-'' \<and>
      list_all is_digit (drop 8 s))"

definition read_iso_date :: "string \<Rightarrow> date" where
  "read_iso_date s =
     \<lparr>year = nat_of_digits (take 4 s), month = nat_of_digits (take 2 (drop 5 s)),
      day = nat_of_digits (drop 8 s)\<rparr>"

subsection \<open>\<^verbatim>\<open>json.dumps(data, ensure_ascii=False)\<close>\<close>

definition hex_char :: "nat \<Rightarrow> char" where
  "hex_char n = ''0123456789abcdef'' ! n"

text \<open>
  The table \<^verbatim>\<open>ESCAPE_DCT\<close> of \<^verbatim>\<open>json.encoder\<close>: the double quote (\<^verbatim>\<open>0x22\<close>), the
  backslash (\<^verbatim>\<open>0x5C\<close>), the five named control characters, and \<^verbatim>\<open>\u00XX\<close> for the
  other characters below \<^verbatim>\<open>0x20\<close>.
\<close>

definition escape_char :: "char \<Rightarrow> string" where
  "escape_char c =
     (if c = CHR 0x22 then [CHR 0x5C, CHR 0x22]
      else if c = CHR 0x5C then [CHR 0x5C, CHR 0x5C]
      else if c = CHR 0x08 then [CHR 0x5C, CHR ''b'']
      else if c = CHR 0x0C then [CHR 0x5C, CHR ''f'']
      else if c = CHR 0x0A then [CHR 0x5C, CHR ''n'']
      else if c = CHR 0x0D then [CHR 0x5C, CHR ''r'']
      else if c = CHR 0x09 then [CHR 0x5C, CHR ''t'']
      else if (of_char c :: nat) < 32 then
        [CHR 0x5C, CHR ''u'', CHR ''0'', CHR ''0'',
         hex_char ((of_char c :: nat) div 16), hex_char ((of_char c :: nat) mod 16)]
      else [c])"

definition encode_basestring :: "string \<Rightarrow> string" where
  "encode_basestring s = CHR 0x22 # concat (map escape_char s) @ [CHR 0x22]"

text \<open>
  The default separators are \<^verbatim>\<open>", "\<close> between items and \<^verbatim>\<open>": "\<close> after a key; a
  dictionary is written in insertion order.
\<close>

fun json_dumps :: "('f \<Rightarrow> string) \<Rightarrow> 'f json \<Rightarrow> string"
  and dumps_list :: "('f \<Rightarrow> string) \<Rightarrow> 'f json list \<Rightarrow> string"
  and dumps_dict :: "('f \<Rightarrow> string) \<Rightarrow> (string \<times> 'f json) list \<Rightarrow> string"
where
  "json_dumps floatstr JNull = ''null''"
| "json_dumps floatstr (JBool b) = (if b then ''true'' else ''false'')"
| "json_dumps floatstr (JInt i) = str_int i"
| "json_dumps floatstr (JFloat x) = floatstr x"
| "json_dumps floatstr (JStr s) = encode_basestring s"
| "json_dumps floatstr (JArr xs) = ''['' @ dumps_list floatstr xs @ '']''"
| "json_dumps floatstr (JObj kvs) = ''{'' @ dumps_dict floatstr kvs @ ''}''"
| "dumps_list floatstr [] = []"
| "dumps_list floatstr [x] = json_dumps floatstr x"
| "dumps_list floatstr (x # y # ys) =
     json_dumps floatstr x @ '', '' @ dumps_list floatstr (y # ys)"
| "dumps_dict floatstr [] = []"
| "dumps_dict floatstr [(k, v)] = encode_basestring k @ '': '' @ json_dumps floatstr v"
| "dumps_dict floatstr ((k, v) # kv # kvs) =
     encode_basestring k @ '': '' @ json_dumps floatstr v @ '', '' @
     dumps_dict floatstr (kv # kvs)"

declare json_dumps.simps [simp del] dumps_list.simps [simp del] dumps_dict.simps [simp del]

text \<open>An \<^verbatim>\<open>Optional[str]\<close> placed in the payload: \<^verbatim>\<open>None\<close> is written \<^verbatim>\<open>null\<close>.\<close>

definition optional_str :: "string option \<Rightarrow> 'f json" where
  "optional_str s = (case s of None \<Rightarrow> JNull | Some v \<Rightarrow> JStr v)"

text \<open>The assignment \<^verbatim>\<open>d[k] = v\<close> on a dictionary kept in insertion order.\<close>

fun dict_set :: "('k \<times> 'v) list \<Rightarrow> 'k \<Rightarrow> 'v \<Rightarrow> ('k \<times> 'v) list" where
  "dict_set [] k v = [(k, v)]"
| "dict_set ((k', v') # kvs) k v =
     (if k' = k then (k, v) # kvs else (k', v') # dict_set kvs k v)"

section \<open>The outbound HTTP client\<close>

datatype http_method = GET | POST

text \<open>A value of the \<^verbatim>\<open>params\<close> dictionary given to \<^verbatim>\<open>httpx.get\<close>.\<close>

datatype query_value = QStr string | QInt int

text \<open>
  What a handler hands to \<^verbatim>\<open>httpx.get\<close> or \<^verbatim>\<open>httpx.post\<close>: the URL, the
  \<^verbatim>\<open>headers\<close> dictionary, and either the query parameters (\<^verbatim>\<open>params=\<close>) or the form
  fields (\<^verbatim>\<open>data=\<close>).
\<close>

record request =
  req_method :: http_method
  req_url :: string
  req_headers :: "(string \<times> string option) list"
  req_params :: "(string \<times> query_value) list"
  req_data :: "(string \<times> string) list"

text \<open>
  The response object \<^verbatim>\<open>r\<close>: \<^verbatim>\<open>r.status_code\<close>, and the value of \<^verbatim>\<open>r.json()\<close>,
  which is \<open>None\<close> when the body is not JSON and the call raises.
\<close>

record 'f response =
  status_code :: int
  body :: "'f json option"

datatype 'f exn =
    HTTPException int "'f json"
  | AttributeError
  | JSONDecodeError
  | TransportError
  | TypeError
  | UnicodeEncodeError
  | ValueError
  | OSError

text \<open>
  The upstream CRM as the handlers see it through the client: a request is answered by a
  response, or by \<open>None\<close> when the client raises because the call failed in transport.
\<close>

type_synonym 'f upstream = "request \<Rightarrow> 'f response option"

text \<open>
  Before it sends anything the client turns every header value into bytes, in the order
  of the dictionary: a value that is neither \<^verbatim>\<open>str\<close> nor \<^verbatim>\<open>bytes\<close>, as \<^verbatim>\<open>None\<close> is, raises
  \<^verbatim>\<open>TypeError\<close>, and a \<^verbatim>\<open>str\<close> is encoded as ASCII, which raises \<^verbatim>\<open>UnicodeEncodeError\<close>
  on a character outside ASCII (a byte from \<^verbatim>\<open>0x80\<close> on in its UTF-8 form).
\<close>

definition header_value_ok :: "string option \<Rightarrow> bool" where
  "header_value_ok v =
     (case v of None \<Rightarrow> False | Some s \<Rightarrow> list_all (\<lambda>ch. (of_char ch :: nat) < 128) s)"

definition header_values_ok :: "request \<Rightarrow> bool" where
  "header_values_ok rq = list_all (\<lambda>kv. header_value_ok (snd kv)) (req_headers rq)"

text \<open>
  What the client makes of a call: the exception of the first header value it cannot
  encode, with nothing sent; or the request sent, and then the upstream's response or
  the exception of a failed transport.
\<close>

definition httpx_send :: "'f upstream \<Rightarrow> request \<Rightarrow> 'f exn + 'f response" where
  "httpx_send upstream rq =
     (case find (\<lambda>kv. \<not> header_value_ok (snd kv)) (req_headers rq) of
        Some kv \<Rightarrow> Inl (if snd kv = None then TypeError else UnicodeEncodeError)
      | None \<Rightarrow> (case upstream rq of None \<Rightarrow> Inl TransportError | Some r \<Rightarrow> Inr r))"

definition httpx_get ::
  "'f upstream \<Rightarrow> string \<Rightarrow> (string \<times> string option) list \<Rightarrow> (string \<times> query_value) list \<Rightarrow>
   request \<times> ('f exn + 'f response)"
where
  "httpx_get upstream url hdrs params =
     (let rq = \<lparr>req_method = GET, req_url = url, req_headers = hdrs, req_params = params,
                req_data = []\<rparr>
      in (rq, httpx_send upstream rq))"

definition httpx_post ::
  "'f upstream \<Rightarrow> string \<Rightarrow> (string \<times> string option) list \<Rightarrow> (string \<times> string) list \<Rightarrow>
   request \<times> ('f exn + 'f response)"
where
  "httpx_post upstream url hdrs data =
     (let rq = \<lparr>req_method = POST, req_url = url, req_headers = hdrs, req_params = [],
                req_data = data\<rparr>
      in (rq, httpx_send upstream rq))"

definition response_json :: "'f response \<Rightarrow> 'f exn + 'f json" where
  "response_json r = (case body r of None \<Rightarrow> Inl JSONDecodeError | Some j \<Rightarrow> Inr j)"

text \<open>The phrases of \<^verbatim>\<open>http.HTTPStatus\<close> (Python 3.11).\<close>

definition http_status_phrase :: "int \<Rightarrow> string option" where
  "http_status_phrase = map_of
     [(100, ''Continue''),
      (101, ''Switching Protocols''),
      (102, ''Processing''),
      (103, ''Early Hints''),
      (200, ''OK''),
      (201, ''Created''),
      (202, ''Accepted''),
      (203, ''Non-Authoritative Information''),
      (204, ''No Content''),
      (205, ''Reset Content''),
      (206, ''Partial Content''),
      (207, ''Multi-Status''),
      (208, ''Already Reported''),
      (226, ''IM Used''),
      (300, ''Multiple Choices''),
      (301, ''Moved Permanently''),
      (302, ''Found''),
      (303, ''See Other''),
      (304, ''Not Modified''),
      (305, ''Use Proxy''),
      (307, ''Temporary Redirect''),
      (308, ''Permanent Redirect''),
      (400, ''Bad Request''),
      (401, ''Unauthorized''),
      (402, ''Payment Required''),
      (403, ''Forbidden''),
      (404, ''Not Found''),
      (405, ''Method Not Allowed''),
      (406, ''Not Acceptable''),
      (407, ''Proxy Authentication Required''),
      (408, ''Request Timeout''),
      (409, ''Conflict''),
      (410, ''Gone''),
      (411, ''Length Required''),
      (412, ''Precondition Failed''),
      (413, ''Request Entity Too Large''),
      (414, ''Request-URI Too Long''),
      (415, ''Unsupported Media Type''),
      (416, ''Requested Range Not Satisfiable''),
      (417, ''Expectation Failed''),
      (418, ''I'm a Teapot''),
      (421, ''Misdirected Request''),
      (422, ''Unprocessable Entity''),
      (423, ''Locked''),
      (424, ''Failed Dependency''),
      (425, ''Too Early''),
      (426, ''Upgrade Required''),
      (428, ''Precondition Required''),
      (429, ''Too Many Requests''),
      (431, ''Request Header Fields Too Large''),
      (451, ''Unavailable For Legal Reasons''),
      (500, ''Internal Server Error''),
      (501, ''Not Implemented''),
      (502, ''Bad Gateway''),
      (503, ''Service Unavailable''),
      (504, ''Gateway Timeout''),
      (505, ''HTTP Version Not Supported''),
      (506, ''Variant Also Negotiates''),
      (507, ''Insufficient Storage''),
      (508, ''Loop Detected''),
      (510, ''Not Extended''),
      (511, ''Network Authentication Required'')]"

text \<open>
  \<^verbatim>\<open>HTTPException(status_code=s, detail=d)\<close>: the constructor replaces a \<^verbatim>\<open>detail\<close> that
  is \<^verbatim>\<open>None\<close> by \<^verbatim>\<open>http.HTTPStatus(s).phrase\<close>, which raises \<^verbatim>\<open>ValueError\<close> when \<open>s\<close> is
  no member of \<^verbatim>\<open>HTTPStatus\<close>. The value is the exception that \<^verbatim>\<open>raise\<close> then raises.
\<close>

definition http_exception :: "int \<Rightarrow> 'f json \<Rightarrow> 'f exn" where
  "http_exception status detail =
     (case detail of
        JNull \<Rightarrow>
          (case http_status_phrase status of
             None \<Rightarrow> ValueError
           | Some phrase \<Rightarrow> HTTPException status (JStr phrase))
      | _ \<Rightarrow> HTTPException status detail)"

section \<open>Module initialisation\<close>



text \<open>
  \<^verbatim>\<open>headers = {'X-API-KEY': os.environ.get("X_API_KEY")}\<close>: \<^verbatim>\<open>get\<close> answers
  \<^verbatim>\<open>None\<close> for a variable that is not set.
\<close>

definition headers :: "(string \<rightharpoonup> string) \<Rightarrow> (string \<times> string option) list" where
  "headers environ = [(''X-API-KEY'', environ ''X_API_KEY'')]"


section \<open>The handlers\<close>

text \<open>
  The handlers read the module's \<^verbatim>\<open>headers\<close>; here it is their argument \<open>hdrs\<close>.
  One run of a handler: the calls it made to the client, in order, each call being what
  the handler handed to \<^verbatim>\<open>httpx.get\<close> or \<^verbatim>\<open>httpx.post\<close>; and how it ended (the
  exception raised on the left, the value returned on the right).
\<close>

record 'f run =
  sent :: "request list"
  outcome :: "'f exn + 'f json"


definition get_customers ::
  "(string \<times> string option) list \<Rightarrow> 'f upstream \<Rightarrow>
   string option \<Rightarrow> string option \<Rightarrow> date option \<Rightarrow> date option \<Rightarrow> 'f run"
where
  "get_customers hdrs upstream name email date_from date_to =
     (let params = [];
          params = (case name of
                      None \<Rightarrow> params
                    | Some v \<Rightarrow> if v \<noteq> [] then dict_set params ''filter[name]'' (QStr v) else params);
          params = (case email of
                      None \<Rightarrow> params
                    | Some v \<Rightarrow> if v \<noteq> [] then dict_set params ''filter[email]'' (QStr v) else params);
          params = (case date_from of
                      None \<Rightarrow> params
                    | Some d \<Rightarrow> dict_set params ''filter[dateFrom]'' (QStr (isoformat d)));
          params = (case date_to of
                      None \<Rightarrow> params
                    | Some d \<Rightarrow> dict_set params ''filter[dateTo]'' (QStr (isoformat d)));
          (rq, r) = httpx_get upstream ''https://usernzt.retailcrm.ru/api/v5/customers'' hdrs params
      in case r of
           Inl e \<Rightarrow> \<lparr>sent = [rq], outcome = Inl e\<rparr>
         | Inr r \<Rightarrow>
             \<lparr>sent = [rq],
              outcome =
                (if status_code r = 200 then response_json r
                 else case response_json r of
                        Inl e \<Rightarrow> Inl e
                      | Inr detail \<Rightarrow> Inl (http_exception (status_code r) detail))\<rparr>)"

text \<open>
  \<^verbatim>\<open>birthday.isoformat()\<close> is evaluated while the dictionary \<^verbatim>\<open>data\<close> is built; on
  \<^verbatim>\<open>None\<close> it raises \<^verbatim>\<open>AttributeError\<close>, before any call is made.
\<close>

definition customer_create ::
  "('f \<Rightarrow> string) \<Rightarrow> (string \<times> string option) list \<Rightarrow> 'f upstream \<Rightarrow>
   string \<Rightarrow> string option \<Rightarrow> string option \<Rightarrow> string \<Rightarrow> date option \<Rightarrow>
   string option \<Rightarrow> string option \<Rightarrow> string option \<Rightarrow> string \<Rightarrow> 'f run"
where
  "customer_create floatstr hdrs upstream
       first_name last_name patronymic email birthday sex region city number =
     (case birthday of
        None \<Rightarrow> \<lparr>sent = [], outcome = Inl AttributeError\<rparr>
      | Some b \<Rightarrow>
         (let data = JObj
                [(''firstName'', JStr first_name),
                 (''lastName'', optional_str last_name),
                 (''patronymic'', optional_str patronymic),
                 (''email'', JStr email),
                 (''birthday'', JStr (isoformat b)),
                 (''sex'', optional_str sex),
                 (''address'', JObj [(''region'', optional_str region), (''city'', optional_str city)]),
                 (''phones'', JArr [JObj [(''number'', JStr number)]])];
              params = [(''customer'', json_dumps floatstr data)];
              (rq, r) = httpx_post upstream ''https://usernzt.retailcrm.ru/api/v5/customers/create''
                          hdrs params
          in case r of
               Inl e \<Rightarrow> \<lparr>sent = [rq], outcome = Inl e\<rparr>
             | Inr r \<Rightarrow>
                 \<lparr>sent = [rq],
                  outcome =
                    (if status_code r = 201 then response_json r
                     else case response_json r of
                            Inl e \<Rightarrow> Inl e
                          | Inr detail \<Rightarrow> Inl (http_exception (status_code r) detail))\<rparr>))"

definition get_orders ::
  "(string \<times> string option) list \<Rightarrow> 'f upstream \<Rightarrow> int \<Rightarrow> 'f run"
where
  "get_orders hdrs upstream customer_id =
     (let params = [(''filter[customerId]'', QInt customer_id)];
          (rq, r) = httpx_get upstream ''https://usernzt.retailcrm.ru/api/v5/orders'' hdrs params
      in case r of
           Inl e \<Rightarrow> \<lparr>sent = [rq], outcome = Inl e\<rparr>
         | Inr r \<Rightarrow>
             \<lparr>sent = [rq],
              outcome =
                (if status_code r = 200 then response_json r
                 else case response_json r of
                        Inl e \<Rightarrow> Inl e
                      | Inr detail \<Rightarrow> Inl (http_exception (status_code r) detail))\<rparr>)"

definition order_create ::
  "('f \<Rightarrow> string) \<Rightarrow> (string \<times> string option) list \<Rightarrow> 'f upstream \<Rightarrow>
   int \<Rightarrow> int \<Rightarrow> string \<Rightarrow> int \<Rightarrow> 'f \<Rightarrow> 'f run"
where
  "order_create floatstr hdrs upstream customer_id order_number product_name quantity price =
     (let data = JObj
            [(''customer'', JObj [(''id'', JInt customer_id)]),
             (''number'', JInt order_number),
             (''items'', JArr [JObj [(''productName'', JStr product_name),
                                     (''quantity'', JInt quantity),
                                     (''initialPrice'', JFloat price)]])];
          params = [(''order'', json_dumps floatstr data)];
          (rq, r) = httpx_post upstream ''https://usernzt.retailcrm.ru/api/v5/orders/create''
                      hdrs params
      in case r of
           Inl e \<Rightarrow> \<lparr>sent = [rq], outcome = Inl e\<rparr>
         | Inr r \<Rightarrow>
             \<lparr>sent = [rq],
              outcome =
                (if status_code r = 201 then response_json r
                 else case response_json r of
                        Inl e \<Rightarrow> Inl e
                      | Inr detail \<Rightarrow> Inl (http_exception (status_code r) detail))\<rparr>)"

definition order_payment ::
  "('f \<Rightarrow> string) \<Rightarrow> (string \<times> string option) list \<Rightarrow> 'f upstream \<Rightarrow> int \<Rightarrow> 'f run"
where
  "order_payment floatstr hdrs upstream order_id =
     (let data = JObj
            [(''order'', JObj [(''id'', JInt order_id)]),
             (''type'', JStr ''cash''),
             (''status'', JStr ''paid'')];
          params = [(''payment'', json_dumps floatstr data)];
          (rq, r) = httpx_post upstream
                      ''https://usernzt.retailcrm.ru/api/v5/orders/payments/create'' hdrs params
      in case r of
           Inl e \<Rightarrow> \<lparr>sent = [rq], outcome = Inl e\<rparr>
         | Inr r \<Rightarrow>
             \<lparr>sent = [rq],
              outcome =
                (if status_code r = 201 then response_json r
                 else case response_json r of
                        Inl e \<Rightarrow> Inl e
                      | Inr detail \<Rightarrow> Inl (http_exception (status_code r) detail))\<rparr>)"

section \<open>The routes\<close>

text \<open>
  The decorators \<^verbatim>\<open>@app.get\<close> and \<^verbatim>\<open>@app.post\<close>: the method, the local path and the
  \<^verbatim>\<open>status_code\<close> argument, which only the three \<^verbatim>\<open>POST\<close> routes give.
\<close>

record route =
  route_method :: http_method
  route_path :: string
  route_status_code :: "int option"

text \<open>
  The status of the response built from a handler's return value: the decorator's
  \<^verbatim>\<open>status_code\<close>, and 200 when it gives none.
\<close>

definition success_status :: "route \<Rightarrow> int" where
  "success_status rt = (case route_status_code rt of None \<Rightarrow> 200 | Some c \<Rightarrow> c)"

text \<open>
  An inbound request after the framework's type coercion: the handler it is routed to,
  with the value of each parameter (\<open>None\<close> for an optional parameter left out).
\<close>

datatype 'f inbound =
    Get_customers "string option" "string option" "date option" "date option"
  | Customer_create string "string option" "string option" string "date option"
      "string option" "string option" "string option" string
  | Get_orders int
  | Order_create int int string int 'f
  | Order_payment int

fun route_of :: "'f inbound \<Rightarrow> route" where
  "route_of (Get_customers name email date_from date_to) =
     \<lparr>route_method = GET, route_path = ''/customer_list/'', route_status_code = None\<rparr>"
| "route_of (Customer_create first_name last_name patronymic email birthday sex region city number) =
     \<lparr>route_method = POST, route_path = ''/customer_create/'', route_status_code = Some 201\<rparr>"
| "route_of (Get_orders customer_id) =
     \<lparr>route_method = GET, route_path = ''/orders/{customer_id}'', route_status_code = None\<rparr>"
| "route_of (Order_create customer_id order_number product_name quantity price) =
     \<lparr>route_method = POST, route_path = ''/orders/'', route_status_code = Some 201\<rparr>"
| "route_of (Order_payment order_id) =
     \<lparr>route_method = POST, route_path = ''/orders/payment/'', route_status_code = Some 201\<rparr>"

fun app :: "('f \<Rightarrow> string) \<Rightarrow> (string \<times> string option) list \<Rightarrow> 'f upstream \<Rightarrow> 'f inbound \<Rightarrow> 'f run" where
  "app floatstr hdrs upstream (Get_customers name email date_from date_to) =
     get_customers hdrs upstream name email date_from date_to"
| "app floatstr hdrs upstream
       (Customer_create first_name last_name patronymic email birthday sex region city number) =
     customer_create floatstr hdrs upstream
       first_name last_name patronymic email birthday sex region city number"
| "app floatstr hdrs upstream (Get_orders customer_id) =
     get_orders hdrs upstream customer_id"
| "app floatstr hdrs upstream (Order_create customer_id order_number product_name quantity price) =
     order_create floatstr hdrs upstream customer_id order_number product_name quantity price"
| "app floatstr hdrs upstream (Order_payment order_id) =
     order_payment floatstr hdrs upstream order_id"

text \<open>The upstream endpoint each handler calls, as its source gives it.\<close>

fun upstream_url :: "'f inbound \<Rightarrow> string" where
  "upstream_url (Get_customers name email date_from date_to) =
     ''https://usernzt.retailcrm.ru/api/v5/customers''"
| "upstream_url (Customer_create first_name last_name patronymic email birthday sex region city number) =
     ''https://usernzt.retailcrm.ru/api/v5/customers/create''"
| "upstream_url (Get_orders customer_id) = ''https://usernzt.retailcrm.ru/api/v5/orders''"
| "upstream_url (Order_create customer_id order_number product_name quantity price) =
     ''https://usernzt.retailcrm.ru/api/v5/orders/create''"
| "upstream_url (Order_payment order_id) =
     ''https://usernzt.retailcrm.ru/api/v5/orders/payments/create''"

definition is_read :: "'f inbound \<Rightarrow> bool" where
  "is_read c = (route_method (route_of c) = GET)"

text \<open>
  The last four lines are the same in the five handlers but for the status compared with
  (\<open>tail_relay\<close> below): what they make of the client's answer is \<open>relay\<close>.
\<close>

definition relay :: "int \<Rightarrow> 'f exn + 'f response \<Rightarrow> 'f exn + 'f json" where
  "relay ok r =
     (case r of
        Inl e \<Rightarrow> Inl e
      | Inr r \<Rightarrow>
          (case body r of
             None \<Rightarrow> Inl JSONDecodeError
           | Some j \<Rightarrow>
               if status_code r = ok then Inr j else Inl (http_exception (status_code r) j)))"

section \<open>The framework's response\<close>

text \<open>
  What FastAPI and Starlette make of a handler's run. The routes declare no response
  model, so a returned value goes through \<^verbatim>\<open>jsonable_encoder\<close> with its default
  arguments and is then made a \<^verbatim>\<open>JSONResponse\<close> with the route's status code.
\<close>

text \<open>
  \<^verbatim>\<open>jsonable_encoder\<close> (\<^verbatim>\<open>fastapi/encoders.py\<close>) on a value made of dictionaries, lists,
  strings, numbers and \<^verbatim>\<open>None\<close>: with \<^verbatim>\<open>sqlalchemy_safe=True\<close>, its default, it leaves out
  of every dictionary the keys that start with \<^verbatim>\<open>_sa\<close>, and copies everything else.
\<close>

fun jsonable_encoder :: "'f json \<Rightarrow> 'f json"
  and encode_list :: "'f json list \<Rightarrow> 'f json list"
  and encode_dict :: "(string \<times> 'f json) list \<Rightarrow> (string \<times> 'f json) list"
where
  "jsonable_encoder JNull = JNull"
| "jsonable_encoder (JBool b) = JBool b"
| "jsonable_encoder (JInt i) = JInt i"
| "jsonable_encoder (JFloat x) = JFloat x"
| "jsonable_encoder (JStr s) = JStr s"
| "jsonable_encoder (JArr xs) = JArr (encode_list xs)"
| "jsonable_encoder (JObj kvs) = JObj (encode_dict kvs)"
| "encode_list [] = []"
| "encode_list (x # xs) = jsonable_encoder x # encode_list xs"
| "encode_dict [] = []"
| "encode_dict ((k, v) # kvs) =
     (if take 3 k = ''_sa'' then encode_dict kvs
      else (k, jsonable_encoder v) # encode_dict kvs)"


text \<open>
  \<^verbatim>\<open>JSONResponse.render\<close> is \<^verbatim>\<open>json.dumps\<close> with \<^verbatim>\<open>ensure_ascii=False\<close>,
  \<^verbatim>\<open>allow_nan=False\<close> and the separators \<^verbatim>\<open>(",", ":")\<close>. With \<^verbatim>\<open>allow_nan=False\<close> a float
  that is not finite (\<^verbatim>\<open>nan\<close>, \<^verbatim>\<open>inf\<close>, \<^verbatim>\<open>-inf\<close>) raises \<^verbatim>\<open>ValueError\<close>; which floats are
  finite is the parameter \<open>isfinite\<close>.
\<close>

fun json_finite :: "('f \<Rightarrow> bool) \<Rightarrow> 'f json \<Rightarrow> bool"
  and json_finite_list :: "('f \<Rightarrow> bool) \<Rightarrow> 'f json list \<Rightarrow> bool"
  and json_finite_dict :: "('f \<Rightarrow> bool) \<Rightarrow> (string \<times> 'f json) list \<Rightarrow> bool"
where
  "json_finite isfinite JNull = True"
| "json_finite isfinite (JBool b) = True"
| "json_finite isfinite (JInt i) = True"
| "json_finite isfinite (JFloat x) = isfinite x"
| "json_finite isfinite (JStr s) = True"
| "json_finite isfinite (JArr xs) = json_finite_list isfinite xs"
| "json_finite isfinite (JObj kvs) = json_finite_dict isfinite kvs"
| "json_finite_list isfinite [] = True"
| "json_finite_list isfinite (x # xs) =
     (json_finite isfinite x \<and> json_finite_list isfinite xs)"
| "json_finite_dict isfinite [] = True"
| "json_finite_dict isfinite ((k, v) # kvs) =
     (json_finite isfinite v \<and> json_finite_dict isfinite kvs)"

fun render_json :: "('f \<Rightarrow> string) \<Rightarrow> 'f json \<Rightarrow> string"
  and render_list :: "('f \<Rightarrow> string) \<Rightarrow> 'f json list \<Rightarrow> string"
  and render_dict :: "('f \<Rightarrow> string) \<Rightarrow> (string \<times> 'f json) list \<Rightarrow> string"
where
  "render_json floatstr JNull = ''null''"
| "render_json floatstr (JBool b) = (if b then ''true'' else ''false'')"
| "render_json floatstr (JInt i) = str_int i"
| "render_json floatstr (JFloat x) = floatstr x"
| "render_json floatstr (JStr s) = encode_basestring s"
| "render_json floatstr (JArr xs) = ''['' @ render_list floatstr xs @ '']''"
| "render_json floatstr (JObj kvs) = ''{'' @ render_dict floatstr kvs @ ''}''"
| "render_list floatstr [] = []"
| "render_list floatstr [x] = render_json floatstr x"
| "render_list floatstr (x # y # ys) =
     render_json floatstr x @ '','' @ render_list floatstr (y # ys)"
| "render_dict floatstr [] = []"
| "render_dict floatstr [(k, v)] = encode_basestring k @ '':'' @ render_json floatstr v"
| "render_dict floatstr ((k, v) # kv # kvs) =
     encode_basestring k @ '':'' @ render_json floatstr v @ '','' @
     render_dict floatstr (kv # kvs)"

declare render_json.simps [simp del] render_list.simps [simp del] render_dict.simps [simp del]

text \<open>
  The local response: its status code and its body, which is the rendering of a JSON
  value, a plain text, or empty.
\<close>

datatype 'f content = JsonContent "'f json" | TextContent string | NoContent

record 'f local_response =
  local_status :: int
  local_body :: "'f content"

definition body_text :: "('f \<Rightarrow> string) \<Rightarrow> 'f content \<Rightarrow> string" where
  "body_text floatstr content =
     (case content of
        JsonContent j \<Rightarrow> render_json floatstr j
      | TextContent t \<Rightarrow> t
      | NoContent \<Rightarrow> [])"

text \<open>\<^verbatim>\<open>is_body_allowed_for_status_code\<close> of \<^verbatim>\<open>fastapi/utils.py\<close>, on an integer.\<close>

definition is_body_allowed_for_status_code :: "int \<Rightarrow> bool" where
  "is_body_allowed_for_status_code status =
     (\<not> (status < 200 \<or> status = 204 \<or> status = 205 \<or> status = 304))"

text \<open>
  The answer to an exception no handler is registered for, and to one raised while a
  response is built: Starlette's \<^verbatim>\<open>ServerErrorMiddleware\<close> sends status 500 with the text
  \<^verbatim>\<open>Internal Server Error\<close>.
\<close>

definition internal_server_error :: "'f local_response" where
  "internal_server_error =
     \<lparr>local_status = 500, local_body = TextContent ''Internal Server Error''\<rparr>"

text \<open>
  A returned value is encoded and rendered under the route's status code
  (\<^verbatim>\<open>get_request_handler\<close> in \<^verbatim>\<open>fastapi/routing.py\<close>). An \<^verbatim>\<open>HTTPException\<close> goes to
  \<^verbatim>\<open>http_exception_handler\<close> (\<^verbatim>\<open>fastapi/exception_handlers.py\<close>), which answers with the
  exception's status code and the body \<^verbatim>\<open>{"detail": exc.detail}\<close>, or with no body where
  the status code allows none; here the detail is not passed through
  \<^verbatim>\<open>jsonable_encoder\<close>.
\<close>

definition respond :: "('f \<Rightarrow> bool) \<Rightarrow> route \<Rightarrow> 'f exn + 'f json \<Rightarrow> 'f local_response" where
  "respond isfinite rt result =
     (case result of
        Inr v \<Rightarrow>
          (let content = jsonable_encoder v in
           if \<not> json_finite isfinite content then internal_server_error
           else if is_body_allowed_for_status_code (success_status rt)
             then \<lparr>local_status = success_status rt, local_body = JsonContent content\<rparr>
             else \<lparr>local_status = success_status rt, local_body = NoContent\<rparr>)
      | Inl (HTTPException status detail) \<Rightarrow>
          if \<not> is_body_allowed_for_status_code status
            then \<lparr>local_status = status, local_body = NoContent\<rparr>
          else if \<not> json_finite isfinite detail then internal_server_error
          else \<lparr>local_status = status, local_body = JsonContent (JObj [(''detail'', detail)])\<rparr>
      | Inl _ \<Rightarrow> internal_server_error)"

text \<open>The local response to an inbound request.\<close>

definition serve ::
  "('f \<Rightarrow> bool) \<Rightarrow> ('f \<Rightarrow> string) \<Rightarrow> (string \<times> string option) list \<Rightarrow> 'f upstream \<Rightarrow>
   'f inbound \<Rightarrow> 'f local_response"
where
  "serve isfinite floatstr hdrs upstream c =
     respond isfinite (route_of c) (outcome (app floatstr hdrs upstream c))"

section \<open>Example upstreams\<close>

text \<open>
  An upstream that gives every request the same answer, and three answers: a customer
  list found, a request refused as invalid, and an order list one of whose keys starts
  with \<^verbatim>\<open>_sa\<close>.
\<close>

definition answering :: "'f response \<Rightarrow> 'f upstream" where
  "answering r = (\<lambda>rq. Some r)"

definition customers_found :: "unit response" where
  "customers_found =
     \<lparr>status_code = 200,
      body = Some (JObj [(''customers'', JArr [JObj [(''id'', JInt 1)]]), (''success'', JBool True)])\<rparr>"

definition invalid_data :: "unit response" where
  "invalid_data =
     \<lparr>status_code = 400,
      body = Some (JObj [(''success'', JBool False), (''errorMsg'', JStr ''Invalid data'')])\<rparr>"


section \<open>Properties\<close>

subsection \<open>Decimal digits and ISO dates\<close>

lemma digit_char_is_digit: "n < 10 \<Longrightarrow> is_digit (digit_char n)"
proof -
  assume "n < 10"
  then have "n \<in> {0,1,2,3,4,5,6,7,8,9}" by auto
  then show ?thesis by (auto simp: is_digit_def digit_char_def)
qed

lemma digit_val_digit_char: "n < 10 \<Longrightarrow> digit_val (digit_char n) = n"
proof -
  assume "n < 10"
  then have "n \<in> {0,1,2,3,4,5,6,7,8,9}" by auto
  then show ?thesis by (auto simp: digit_val_def digit_char_def)
qed

lemma str_nat_digits: "list_all is_digit (str_nat n)"
proof (induction n rule: str_nat.induct)
  case (1 n)
  show ?case
  proof (cases "n < 10")
    case True
    then show ?thesis by (simp add: str_nat.simps[of n] digit_char_is_digit)
  next
    case False
    with 1 show ?thesis by (simp add: str_nat.simps[of n] digit_char_is_digit)
  qed
qed

lemma nat_of_digits_snoc: "nat_of_digits (s @ [c]) = 10 * nat_of_digits s + digit_val c"
  by (simp add: nat_of_digits_def)

lemma nat_of_digits_str_nat: "nat_of_digits (str_nat n) = n"
proof (induction n rule: str_nat.induct)
  case (1 n)
  show ?case
  proof (cases "n < 10")
    case True
    then show ?thesis by (simp add: str_nat.simps[of n] nat_of_digits_def digit_val_digit_char)
  next
    case False
    with 1 show ?thesis by (simp add: str_nat.simps[of n] nat_of_digits_snoc digit_val_digit_char)
  qed
qed

lemma length_str_nat_pos: "0 < length (str_nat n)"
  by (subst str_nat.simps) simp

lemma length_str_nat_le: "n < 10 ^ Suc k \<Longrightarrow> length (str_nat n) \<le> Suc k"
proof (induction k arbitrary: n)
  case 0
  then show ?case by (simp add: str_nat.simps[of n])
next
  case (Suc k)
  show ?case
  proof (cases "n < 10")
    case True
    then show ?thesis by (simp add: str_nat.simps[of n])
  next
    case False
    from Suc.prems have "n div 10 < 10 ^ Suc k" by (simp add: less_mult_imp_div_less mult.commute)
    from Suc.IH[OF this] False show ?thesis by (simp add: str_nat.simps[of n])
  qed
qed

lemma length_zero_pad: "n < 10 ^ Suc k \<Longrightarrow> length (zero_pad (Suc k) n) = Suc k"
  using length_str_nat_le[of n k] by (simp add: zero_pad_def)

lemma zero_pad_digits: "list_all is_digit (zero_pad w n)"
proof -
  have "list_all is_digit (replicate k CHR ''0'')" for k
    by (simp add: list_all_iff is_digit_def)
  then show ?thesis by (simp add: zero_pad_def str_nat_digits)
qed

lemma nat_of_digits_zeros: "nat_of_digits (replicate k CHR ''0'') = 0"
proof (induction k)
  case 0
  show ?case by (simp add: nat_of_digits_def)
next
  case (Suc k)
  have "replicate (Suc k) CHR ''0'' = replicate k CHR ''0'' @ [CHR ''0'']"
    by (simp add: replicate_append_same)
  with Suc show ?case
    by (simp only: nat_of_digits_snoc) (simp add: digit_val_def)
qed

lemma nat_of_digits_zero_pad: "nat_of_digits (zero_pad w n) = n"
proof -
  have "nat_of_digits (zs @ s) = nat_of_digits s" if "nat_of_digits zs = 0" for zs s
    using that by (simp add: nat_of_digits_def)
  then show ?thesis
    by (simp add: zero_pad_def nat_of_digits_zeros nat_of_digits_str_nat)
qed

lemma isoformat_parts:
  assumes "valid_date d"
  shows "length (zero_pad 4 (year d)) = 4" "length (zero_pad 2 (month d)) = 2" "length (zero_pad 2 (day d)) = 2"
proof -
  from assms have y: "year d < 10 ^ Suc 3" and m: "month d < 10 ^ Suc 1"
    by (simp_all add: valid_date_def)
  from assms have "day d \<le> 31" by (auto simp: valid_date_def days_in_month_def split: if_splits)
  then have dd: "day d < 10 ^ Suc 1" by simp
  show "length (zero_pad 4 (year d)) = 4" using length_zero_pad[OF y] by simp
  show "length (zero_pad 2 (month d)) = 2" using length_zero_pad[OF m] by (simp add: numeral_2_eq_2)
  show "length (zero_pad 2 (day d)) = 2" using length_zero_pad[OF dd] by (simp add: numeral_2_eq_2)
qed

lemma isoformat_is_iso_date: "valid_date d \<Longrightarrow> is_iso_date (isoformat d)"
  using isoformat_parts[of d]
  by (simp add: is_iso_date_def isoformat_def zero_pad_digits nth_append)

lemma read_iso_date_isoformat: "valid_date d \<Longrightarrow> read_iso_date (isoformat d) = d"
  using isoformat_parts[of d]
  by (simp add: read_iso_date_def isoformat_def nat_of_digits_zero_pad)

subsection \<open>The tail of a handler\<close>

lemma tail_relay:
  "(case r of
      Inl e \<Rightarrow> \<lparr>sent = [rq], outcome = Inl e\<rparr>
    | Inr r \<Rightarrow>
        \<lparr>sent = [rq],
         outcome =
           (if status_code r = ok then response_json r
            else case response_json r of
                   Inl e \<Rightarrow> Inl e
                 | Inr detail \<Rightarrow> Inl (http_exception (status_code r) detail))\<rparr>) =
   \<lparr>sent = [rq], outcome = relay ok r\<rparr>"
  by (simp add: relay_def response_json_def split: sum.splits option.splits)

subsection \<open>What each handler sends\<close>

lemma get_customers_sent:
  "sent (get_customers hdrs upstream name email date_from date_to) =
     [\<lparr>req_method = GET, req_url = ''https://usernzt.retailcrm.ru/api/v5/customers'',
       req_headers = hdrs,
       req_params =
         (case name of None \<Rightarrow> [] | Some v \<Rightarrow> if v = [] then [] else [(''filter[name]'', QStr v)]) @
         (case email of None \<Rightarrow> [] | Some v \<Rightarrow> if v = [] then [] else [(''filter[email]'', QStr v)]) @
         (case date_from of None \<Rightarrow> [] | Some d \<Rightarrow> [(''filter[dateFrom]'', QStr (isoformat d))]) @
         (case date_to of None \<Rightarrow> [] | Some d \<Rightarrow> [(''filter[dateTo]'', QStr (isoformat d))]),
       req_data = []\<rparr>]"
  by (simp add: get_customers_def httpx_get_def Let_def tail_relay split: option.splits)

lemma customer_create_sent:
  "sent (customer_create floatstr hdrs upstream
           first_name last_name patronymic email (Some b) sex region city number) =
     [\<lparr>req_method = POST, req_url = ''https://usernzt.retailcrm.ru/api/v5/customers/create'',
       req_headers = hdrs, req_params = [],
       req_data =
         [(''customer'',
           json_dumps floatstr
             (JObj [(''firstName'', JStr first_name),
                    (''lastName'', optional_str last_name),
                    (''patronymic'', optional_str patronymic),
                    (''email'', JStr email),
                    (''birthday'', JStr (isoformat b)),
                    (''sex'', optional_str sex),
                    (''address'', JObj [(''region'', optional_str region),
                                        (''city'', optional_str city)]),
                    (''phones'', JArr [JObj [(''number'', JStr number)]])]))]\<rparr>]"
  by (simp add: customer_create_def httpx_post_def Let_def tail_relay split: option.splits)

lemma get_orders_sent:
  "sent (get_orders hdrs upstream customer_id) =
     [\<lparr>req_method = GET, req_url = ''https://usernzt.retailcrm.ru/api/v5/orders'',
       req_headers = hdrs, req_params = [(''filter[customerId]'', QInt customer_id)],
       req_data = []\<rparr>]"
  by (simp add: get_orders_def httpx_get_def Let_def tail_relay split: option.splits)

lemma order_create_sent:
  "sent (order_create floatstr hdrs upstream customer_id order_number product_name quantity price) =
     [\<lparr>req_method = POST, req_url = ''https://usernzt.retailcrm.ru/api/v5/orders/create'',
       req_headers = hdrs, req_params = [],
       req_data =
         [(''order'',
           json_dumps floatstr
             (JObj [(''customer'', JObj [(''id'', JInt customer_id)]),
                    (''number'', JInt order_number),
                    (''items'', JArr [JObj [(''productName'', JStr product_name),
                                            (''quantity'', JInt quantity),
                                            (''initialPrice'', JFloat price)]])]))]\<rparr>]"
  by (simp add: order_create_def httpx_post_def Let_def tail_relay split: option.splits)

lemma order_payment_sent:
  "sent (order_payment floatstr hdrs upstream order_id) =
     [\<lparr>req_method = POST,
       req_url = ''https://usernzt.retailcrm.ru/api/v5/orders/payments/create'',
       req_headers = hdrs, req_params = [],
       req_data =
         [(''payment'',
           json_dumps floatstr
             (JObj [(''order'', JObj [(''id'', JInt order_id)]),
                    (''type'', JStr ''cash''),
                    (''status'', JStr ''paid'')]))]\<rparr>]"
  by (simp add: order_payment_def httpx_post_def Let_def tail_relay split: option.splits)

subsection \<open>How each handler ends\<close>

lemma get_customers_outcome:
  "outcome (get_customers hdrs upstream name email date_from date_to) =
     relay 200 (httpx_send upstream
       (hd (sent (get_customers hdrs upstream name email date_from date_to))))"
  by (simp add: get_customers_def httpx_get_def Let_def tail_relay)

lemma customer_create_outcome:
  "outcome (customer_create floatstr hdrs upstream
           first_name last_name patronymic email (Some b) sex region city number) =
     relay 201 (httpx_send upstream (hd (sent (customer_create floatstr hdrs upstream
           first_name last_name patronymic email (Some b) sex region city number))))"
  by (simp add: customer_create_def httpx_post_def Let_def tail_relay)

lemma get_orders_outcome:
  "outcome (get_orders hdrs upstream customer_id) =
     relay 200 (httpx_send upstream (hd (sent (get_orders hdrs upstream customer_id))))"
  by (simp add: get_orders_def httpx_get_def Let_def tail_relay)

lemma order_create_outcome:
  "outcome (order_create floatstr hdrs upstream customer_id order_number product_name quantity price) =
     relay 201 (httpx_send upstream (hd (sent
       (order_create floatstr hdrs upstream customer_id order_number product_name quantity price))))"
  by (simp add: order_create_def httpx_post_def Let_def tail_relay)

lemma order_payment_outcome:
  "outcome (order_payment floatstr hdrs upstream order_id) =
     relay 201 (httpx_send upstream (hd (sent (order_payment floatstr hdrs upstream order_id))))"
  by (simp add: order_payment_def httpx_post_def Let_def tail_relay)

lemma customer_create_no_birthday:
  "customer_create floatstr hdrs upstream
     first_name last_name patronymic email None sex region city number =
   \<lparr>sent = [], outcome = Inl AttributeError\<rparr>"
  by (simp add: customer_create_def)

lemma app_outcome:
  "outcome (app floatstr hdrs upstream c) =
     relay (if is_read c then 200 else 201) (httpx_send upstream rq)"
  if "sent (app floatstr hdrs upstream c) = [rq]"
proof (cases c)
  case (Get_customers name email date_from date_to)
  with that show ?thesis using get_customers_outcome[of hdrs upstream name email date_from date_to]
    by (simp add: is_read_def)
next
  case (Customer_create first_name last_name patronymic email birthday sex region city number)
  with that obtain b where "birthday = Some b"
    by (cases birthday) (simp_all add: customer_create_no_birthday)
  with that Customer_create show ?thesis
    using customer_create_outcome[of floatstr hdrs upstream first_name last_name patronymic email b
            sex region city number]
    by (simp add: is_read_def)
next
  case (Get_orders customer_id)
  with that show ?thesis using get_orders_outcome[of hdrs upstream customer_id]
    by (simp add: is_read_def)
next
  case (Order_create customer_id order_number product_name quantity price)
  with that show ?thesis
    using order_create_outcome[of floatstr hdrs upstream customer_id order_number product_name
            quantity price]
    by (simp add: is_read_def)
next
  case (Order_payment order_id)
  with that show ?thesis using order_payment_outcome[of floatstr hdrs upstream order_id]
    by (simp add: is_read_def)
qed


text \<open>
  Every inbound request but a \<^verbatim>\<open>customer_create\<close> without \<^verbatim>\<open>birthday\<close> leads to one
  call of the client, for the handler's upstream endpoint.
\<close>

lemma app_one_call:
  assumes "\<And>first_name last_name patronymic email sex region city number.
             c \<noteq> Customer_create first_name last_name patronymic email None sex region city number"
  shows "\<exists>rq. sent (app floatstr hdrs upstream c) = [rq] \<and> req_url rq = upstream_url c \<and>
           req_method rq = route_method (route_of c) \<and> req_headers rq = hdrs"
proof (cases c)
  case (Customer_create first_name last_name patronymic email birthday sex region city number)
  show ?thesis
  proof (cases birthday)
    case None
    with Customer_create
      assms [of first_name last_name patronymic email sex region city number]
    show ?thesis by simp
  next
    case (Some b)
    with Customer_create show ?thesis
      by (simp add: customer_create_sent)
  qed
qed (simp_all add: get_customers_sent get_orders_sent order_create_sent order_payment_sent)


text \<open>
  The ways a call can fail to give a JSON answer end the handler in an exception that is
  not an \<^verbatim>\<open>HTTPException\<close>, and the local response is then the 500 of the server.
\<close>

lemma httpx_send_ok:
  "header_values_ok rq \<Longrightarrow>
   httpx_send upstream rq =
     (case upstream rq of None \<Rightarrow> Inl TransportError | Some r \<Rightarrow> Inr r)"
proof -
  assume "header_values_ok rq"
  then have "find (\<lambda>kv. \<not> header_value_ok (snd kv)) (req_headers rq) = None"
    by (auto simp: header_values_ok_def find_None_iff list_all_iff)
  then show ?thesis
    by (simp add: httpx_send_def)
qed

lemma httpx_send_refused:
  assumes "\<not> header_values_ok rq"
  shows "httpx_send upstream rq = Inl TypeError \<or>
         httpx_send upstream rq = Inl UnicodeEncodeError"
proof -
  from assms obtain kv where "find (\<lambda>kv. \<not> header_value_ok (snd kv)) (req_headers rq) = Some kv"
    by (cases "find (\<lambda>kv. \<not> header_value_ok (snd kv)) (req_headers rq)")
       (auto simp: header_values_ok_def find_None_iff list_all_iff)
  then show ?thesis
    by (simp add: httpx_send_def)
qed

lemma app_header_refused:
  assumes "sent (app floatstr hdrs upstream c) = [rq]" and "\<not> header_values_ok rq"
  shows "outcome (app floatstr hdrs upstream c) = Inl TypeError \<or>
         outcome (app floatstr hdrs upstream c) = Inl UnicodeEncodeError"
  using app_outcome [OF assms(1)] httpx_send_refused [OF assms(2), of upstream]
  by (auto simp: relay_def)

lemma app_transport_failure:
  assumes "sent (app floatstr hdrs upstream c) = [rq]" and "header_values_ok rq"
    and "upstream rq = None"
  shows "outcome (app floatstr hdrs upstream c) = Inl TransportError"
  using assms by (simp add: app_outcome relay_def httpx_send_ok)

lemma app_no_json_body:
  assumes "sent (app floatstr hdrs upstream c) = [rq]" and "header_values_ok rq"
    and "upstream rq = Some r" and "body r = None"
  shows "outcome (app floatstr hdrs upstream c) = Inl JSONDecodeError"
  using assms by (simp add: app_outcome relay_def httpx_send_ok)


subsection \<open>The framework's encoding\<close>



text \<open>
  What the code does with an upstream answer of another status: the local status is the
  upstream's, and the local body is the upstream's JSON value under the key
  \<^verbatim>\<open>detail\<close>, where the status allows a body and the value is not \<^verbatim>\<open>null\<close>.
\<close>

lemma upstream_failure_response:
  assumes "list_all (\<lambda>kv. header_value_ok (snd kv)) hdrs"
    and "\<And>first_name last_name patronymic email sex region city number.
           c \<noteq> Customer_create first_name last_name patronymic email None sex region city number"
    and "\<And>rq. req_url rq = upstream_url c \<Longrightarrow> upstream rq = Some r"
    and "status_code r \<noteq> (if is_read c then 200 else 201)"
    and "body r = Some j"
    and "j \<noteq> JNull"
    and "json_finite isfinite j"
    and "is_body_allowed_for_status_code (status_code r)"
  shows "outcome (app floatstr hdrs upstream c) = Inl (HTTPException (status_code r) j)"
    and "serve isfinite floatstr hdrs upstream c =
           \<lparr>local_status = status_code r, local_body = JsonContent (JObj [(''detail'', j)])\<rparr>"
proof -
  from app_one_call [OF assms(2), of floatstr hdrs upstream] obtain rq where
    rq: "sent (app floatstr hdrs upstream c) = [rq]" "req_url rq = upstream_url c"
      "req_headers rq = hdrs"
    by blast
  from rq(3) assms(1) have ok: "header_values_ok rq"
    by (simp add: header_values_ok_def)
  from assms(3) [OF rq(2)] have up: "upstream rq = Some r" .
  from assms(6) have ex: "http_exception (status_code r) j = HTTPException (status_code r) j"
    by (cases j) (simp_all add: http_exception_def)
  show out: "outcome (app floatstr hdrs upstream c) = Inl (HTTPException (status_code r) j)"
    using app_outcome [OF rq(1)] up assms(4,5) ex
    by (simp add: relay_def httpx_send_ok [OF ok])
  show "serve isfinite floatstr hdrs upstream c =
           \<lparr>local_status = status_code r, local_body = JsonContent (JObj [(''detail'', j)])\<rparr>"
    using out assms(7,8) by (simp add: serve_def respond_def)
qed

subsection \<open>The serialised payloads\<close>

lemmas dumps_simps =
  json_dumps.simps dumps_list.simps dumps_dict.simps encode_basestring_def escape_char_def

lemma order_payment_text:
  \<open>json_dumps floatstr
      (JObj [(''order'', JObj [(''id'', JInt order_id)]),
             (''type'', JStr ''cash''),
             (''status'', JStr ''paid'')]) =
    ''{"order": {"id": '' @ str_int order_id @ ''}, "type": "cash", "status": "paid"}''\<close>
  by (simp add: dumps_simps)

lemma order_create_text:
  \<open>json_dumps floatstr
      (JObj [(''customer'', JObj [(''id'', JInt customer_id)]),
             (''number'', JInt order_number),
             (''items'', JArr [JObj [(''productName'', JStr product_name),
                                     (''quantity'', JInt quantity),
                                     (''initialPrice'', JFloat price)]])]) =
    ''{"customer": {"id": '' @ str_int customer_id @ ''}, "number": '' @ str_int order_number @
    '', "items": [{"productName": '' @ encode_basestring product_name @
    '', "quantity": '' @ str_int quantity @ '', "initialPrice": '' @ floatstr price @ ''}]}''\<close>
  by (simp add: json_dumps.simps dumps_list.simps dumps_dict.simps)
     (simp add: encode_basestring_def escape_char_def)

lemma customer_create_text:
  \<open>json_dumps floatstr
      (JObj [(''firstName'', JStr first_name),
             (''lastName'', optional_str last_name),
             (''patronymic'', optional_str patronymic),
             (''email'', JStr email),
             (''birthday'', JStr (isoformat b)),
             (''sex'', optional_str sex),
             (''address'', JObj [(''region'', optional_str region),
                                 (''city'', optional_str city)]),
             (''phones'', JArr [JObj [(''number'', JStr number)]])]) =
    ''{"firstName": '' @ encode_basestring first_name @
    '', "lastName": '' @ json_dumps floatstr (optional_str last_name) @
    '', "patronymic": '' @ json_dumps floatstr (optional_str patronymic) @
    '', "email": '' @ encode_basestring email @
    '', "birthday": '' @ encode_basestring (isoformat b) @
    '', "sex": '' @ json_dumps floatstr (optional_str sex) @
    '', "address": {"region": '' @ json_dumps floatstr (optional_str region) @
    '', "city": '' @ json_dumps floatstr (optional_str city) @
    ''}, "phones": [{"number": '' @ encode_basestring number @ ''}]}''\<close>
proof -
  have k: \<open>encode_basestring ''firstName'' = ''"firstName"''\<close>
    \<open>encode_basestring ''lastName'' = ''"lastName"''\<close>
    \<open>encode_basestring ''patronymic'' = ''"patronymic"''\<close>
    \<open>encode_basestring ''email'' = ''"email"''\<close>
    \<open>encode_basestring ''birthday'' = ''"birthday"''\<close>
    \<open>encode_basestring ''sex'' = ''"sex"''\<close>
    \<open>encode_basestring ''address'' = ''"address"''\<close>
    \<open>encode_basestring ''region'' = ''"region"''\<close>
    \<open>encode_basestring ''city'' = ''"city"''\<close>
    \<open>encode_basestring ''phones'' = ''"phones"''\<close>
    \<open>encode_basestring ''number'' = ''"number"''\<close>
    by (simp_all add: encode_basestring_def escape_char_def)
  show ?thesis
    by (simp add: json_dumps.simps dumps_list.simps dumps_dict.simps k)
qed

lemma optional_str_text:
  "json_dumps floatstr (optional_str None) = ''null''"
  "json_dumps floatstr (optional_str (Some v)) = encode_basestring v"
  by (simp_all add: optional_str_def json_dumps.simps)

subsection \<open>Claims\<close>




text \<open>
  C2. At \<^verbatim>\<open>POST /orders/?customer_id=0&order_number=999&product_name=Tyres&quantity=4&price=0.99\<close>,
  answered by the upstream with status 400 and the body
  \<^verbatim>\<open>{"success": false, "errorMsg": "Invalid data"}\<close>, the local response has status 400
  and the body \<^verbatim>\<open>{"detail":{"success":false,"errorMsg":"Invalid data"}}\<close>: the upstream's
  JSON value is one level down, under \<^verbatim>\<open>detail\<close>, and is not the body.
\<close>

theorem upstream_error_body_is_wrapped:
  \<open>serve (\<lambda>_. True) (\<lambda>_. ''0.99'') (headers [''X_API_KEY'' \<mapsto> ''secret''])
      (answering invalid_data) (Order_create 0 999 ''Tyres'' 4 ()) =
     \<lparr>local_status = 400,
      local_body = JsonContent
        (JObj [(''detail'',
                JObj [(''success'', JBool False), (''errorMsg'', JStr ''Invalid data'')])])\<rparr> \<and>
   body_text (\<lambda>_. ''0.99'')
     (local_body (serve (\<lambda>_. True) (\<lambda>_. ''0.99'') (headers [''X_API_KEY'' \<mapsto> ''secret''])
        (answering invalid_data) (Order_create 0 999 ''Tyres'' 4 ()))) =
     ''{"detail":{"success":false,"errorMsg":"Invalid data"}}'' \<and>
   body invalid_data =
     Some (JObj [(''success'', JBool False), (''errorMsg'', JStr ''Invalid data'')]) \<and>
   local_body (serve (\<lambda>_. True) (\<lambda>_. ''0.99'') (headers [''X_API_KEY'' \<mapsto> ''secret''])
        (answering invalid_data) (Order_create 0 999 ''Tyres'' 4 ())) \<noteq>
     JsonContent (JObj [(''success'', JBool False), (''errorMsg'', JStr ''Invalid data'')])\<close>
proof -
  let ?sv = "serve (\<lambda>_. True) (\<lambda>_. ''0.99'') (headers [''X_API_KEY'' \<mapsto> ''secret''])
      (answering invalid_data) (Order_create 0 999 ''Tyres'' 4 ())"
  let ?j = "JObj [(''success'', JBool False), (''errorMsg'', JStr ''Invalid data'')] :: unit json"
  have h1: "list_all (\<lambda>kv. header_value_ok (snd kv)) (headers [''X_API_KEY'' \<mapsto> ''secret''])"
    by (simp add: headers_def header_value_ok_def)
  have h2: "(Order_create 0 999 ''Tyres'' 4 () :: unit inbound) \<noteq>
      Customer_create first_name last_name patronymic email None sex region city number"
    for first_name last_name patronymic email sex region city number
    by simp
  have h3: "answering invalid_data rq = Some invalid_data" for rq
    by (simp add: answering_def)
  have h4: "status_code invalid_data \<noteq>
      (if is_read (Order_create 0 999 ''Tyres'' 4 () :: unit inbound) then 200 else 201)"
    by (simp add: invalid_data_def is_read_def)
  have h5: "body invalid_data = Some ?j"
    by (simp add: invalid_data_def)
  have h6: "?j \<noteq> JNull" and h7: "json_finite (\<lambda>_. True) ?j"
    by simp_all
  have h8: "is_body_allowed_for_status_code (status_code invalid_data)"
    by (simp add: invalid_data_def is_body_allowed_for_status_code_def)
  have v: "?sv = \<lparr>local_status = 400, local_body = JsonContent (JObj [(''detail'', ?j)])\<rparr>"
    using upstream_failure_response(2) [OF h1 h2 h3 h4 h5 h6 h7 h8, of "\<lambda>_. ''0.99''"]
    by (simp add: invalid_data_def)
  have t: \<open>render_json (\<lambda>_. ''0.99'') (JObj [(''detail'', ?j)]) =
      ''{"detail":{"success":false,"errorMsg":"Invalid data"}}''\<close>
    by (simp add: render_json.simps render_list.simps render_dict.simps
          encode_basestring_def escape_char_def)
  show ?thesis
    using v t h5 by (simp add: body_text_def)
qed

text \<open>
  C3. With the optional \<^verbatim>\<open>birthday\<close> left out, \<^verbatim>\<open>customer_create\<close> raises
  \<^verbatim>\<open>AttributeError\<close> and makes no outbound call, whatever its other arguments are.
\<close>

theorem customer_create_without_birthday_raises:
  "outcome (customer_create floatstr hdrs upstream
      first_name last_name patronymic email None sex region city number) = Inl AttributeError \<and>
   length (sent (customer_create floatstr hdrs upstream
      first_name last_name patronymic email None sex region city number)) = 0"
  by (simp add: customer_create_def)

text \<open>
  C4. At the request \<^verbatim>\<open>first_name=Ivan&email=ivan@example.com&number=+375291234567\<close>,
  every optional parameter left out, no form body reaches the upstream: the handler has
  stopped before \<^verbatim>\<open>json.dumps\<close>.
\<close>

theorem customer_create_without_optionals_sends_no_form:
  "map req_data (sent (customer_create (\<lambda>_::unit. ''0.99'') (headers Map.empty)
      (answering customers_found)
      ''Ivan'' None None ''ivan@example.com'' None None None None ''+375291234567'')) = []"
  by (simp add: customer_create_def)

text \<open>
  C5. \<^verbatim>\<open>order_create\<close> makes one call, a \<^verbatim>\<open>POST\<close> to the upstream's
  \<^verbatim>\<open>/orders/create\<close> whose form has the single field \<^verbatim>\<open>order\<close>; its value is the JSON
  text of the object with \<^verbatim>\<open>customer.id\<close>, \<^verbatim>\<open>number\<close> and one item holding
  \<^verbatim>\<open>productName\<close>, \<^verbatim>\<open>quantity\<close> and \<^verbatim>\<open>initialPrice\<close>.
\<close>

theorem order_create_request:
  \<open>sent (order_create floatstr hdrs upstream customer_id order_number product_name quantity price) =
     [\<lparr>req_method = POST, req_url = ''https://usernzt.retailcrm.ru/api/v5/orders/create'',
       req_headers = hdrs, req_params = [],
       req_data =
         [(''order'',
           json_dumps floatstr
             (JObj [(''customer'', JObj [(''id'', JInt customer_id)]),
                    (''number'', JInt order_number),
                    (''items'', JArr [JObj [(''productName'', JStr product_name),
                                            (''quantity'', JInt quantity),
                                            (''initialPrice'', JFloat price)]])]))]\<rparr>] \<and>
   json_dumps floatstr
     (JObj [(''customer'', JObj [(''id'', JInt customer_id)]),
            (''number'', JInt order_number),
            (''items'', JArr [JObj [(''productName'', JStr product_name),
                                    (''quantity'', JInt quantity),
                                    (''initialPrice'', JFloat price)]])]) =
     ''{"customer": {"id": '' @ str_int customer_id @ ''}, "number": '' @ str_int order_number @
     '', "items": [{"productName": '' @ encode_basestring product_name @
     '', "quantity": '' @ str_int quantity @ '', "initialPrice": '' @ floatstr price @ ''}]}''\<close>
  by (simp only: order_create_sent order_create_text simp_thms)

theorem order_create_request_witness:
  \<open>map req_data (sent (order_create (\<lambda>_. ''0.99'') (headers Map.empty) (answering invalid_data)
      0 999 ''Tyres'' 4 ())) =
   [[(''order'',
      ''{"customer": {"id": 0}, "number": 999, "items": [{"productName": "Tyres", "quantity": 4, "initialPrice": 0.99}]}'')]]\<close>
proof -
  have n: "str_int 0 = ''0''" "str_int 999 = ''999''" "str_int 4 = ''4''"
    by code_simp+
  have s: \<open>encode_basestring ''Tyres'' = ''"Tyres"''\<close>
    by (simp add: encode_basestring_def escape_char_def)
  from order_create_request [of "\<lambda>_. ''0.99''" "headers Map.empty" "answering invalid_data"
      0 999 "''Tyres''" 4 "()"]
  show ?thesis by (simp add: n s)
qed

text \<open>
  C6. \<^verbatim>\<open>order_payment\<close> makes one call whose form has the single field \<^verbatim>\<open>payment\<close>;
  its value is the JSON text of \<^verbatim>\<open>{order: {id: order_id}, type: "cash", status: "paid"}\<close>,
  in which only the id depends on the input.
\<close>

theorem order_payment_request:
  \<open>sent (order_payment floatstr hdrs upstream order_id) =
     [\<lparr>req_method = POST,
       req_url = ''https://usernzt.retailcrm.ru/api/v5/orders/payments/create'',
       req_headers = hdrs, req_params = [],
       req_data =
         [(''payment'',
           json_dumps floatstr
             (JObj [(''order'', JObj [(''id'', JInt order_id)]),
                    (''type'', JStr ''cash''),
                    (''status'', JStr ''paid'')]))]\<rparr>] \<and>
   json_dumps floatstr
     (JObj [(''order'', JObj [(''id'', JInt order_id)]),
            (''type'', JStr ''cash''),
            (''status'', JStr ''paid'')]) =
     ''{"order": {"id": '' @ str_int order_id @ ''}, "type": "cash", "status": "paid"}''\<close>
  by (simp only: order_payment_sent order_payment_text simp_thms)

theorem order_payment_request_witness:
  \<open>map req_data (sent (order_payment (\<lambda>_::unit. ''0.99'') (headers Map.empty)
      (answering customers_found) 42)) =
   [[(''payment'', ''{"order": {"id": 42}, "type": "cash", "status": "paid"}'')]]\<close>
proof -
  have n: "str_int 42 = ''42''"
    by code_simp
  from order_payment_request [of "\<lambda>_::unit. ''0.99''" "headers Map.empty"
      "answering customers_found" 42]
  show ?thesis by (simp add: n)
qed

text \<open>
  C7, as the code has it. \<^verbatim>\<open>get_customers\<close> makes one call, to the upstream's
  \<^verbatim>\<open>/customers\<close>. Its query holds \<^verbatim>\<open>filter[name]\<close> (and likewise \<^verbatim>\<open>filter[email]\<close>)
  exactly when the parameter is given and is not the empty string, with the given value;
  it holds \<^verbatim>\<open>filter[dateFrom]\<close> (and likewise \<^verbatim>\<open>filter[dateTo]\<close>) exactly when the date
  is given, with the date's \<^verbatim>\<open>isoformat()\<close>, a text of the shape \<^verbatim>\<open>YYYY-MM-DD\<close> that
  reads back as the date; it holds no other key, and no key twice.
\<close>

theorem get_customers_query:
  assumes "case date_from of None \<Rightarrow> True | Some d \<Rightarrow> valid_date d"
    and "case date_to of None \<Rightarrow> True | Some d \<Rightarrow> valid_date d"
  shows "\<exists>rq. sent (get_customers hdrs upstream name email date_from date_to) = [rq] \<and>
      req_method rq = GET \<and>
      req_url rq = ''https://usernzt.retailcrm.ru/api/v5/customers'' \<and>
      map_of (req_params rq) ''filter[name]'' =
        (case name of None \<Rightarrow> None | Some v \<Rightarrow> if v = [] then None else Some (QStr v)) \<and>
      map_of (req_params rq) ''filter[email]'' =
        (case email of None \<Rightarrow> None | Some v \<Rightarrow> if v = [] then None else Some (QStr v)) \<and>
      map_of (req_params rq) ''filter[dateFrom]'' =
        (case date_from of None \<Rightarrow> None | Some d \<Rightarrow> Some (QStr (isoformat d))) \<and>
      map_of (req_params rq) ''filter[dateTo]'' =
        (case date_to of None \<Rightarrow> None | Some d \<Rightarrow> Some (QStr (isoformat d))) \<and>
      set (map fst (req_params rq)) \<subseteq>
        {''filter[name]'', ''filter[email]'', ''filter[dateFrom]'', ''filter[dateTo]''} \<and>
      distinct (map fst (req_params rq)) \<and>
      (case date_from of None \<Rightarrow> True
       | Some d \<Rightarrow> is_iso_date (isoformat d) \<and> read_iso_date (isoformat d) = d) \<and>
      (case date_to of None \<Rightarrow> True
       | Some d \<Rightarrow> is_iso_date (isoformat d) \<and> read_iso_date (isoformat d) = d)"
proof -
  have iso: "case x of None \<Rightarrow> True
       | Some d \<Rightarrow> is_iso_date (isoformat d) \<and> read_iso_date (isoformat d) = d"
    if "case x of None \<Rightarrow> True | Some d \<Rightarrow> valid_date d" for x
    using that by (cases x) (simp_all add: isoformat_is_iso_date read_iso_date_isoformat)
  let ?ps = "(case name of None \<Rightarrow> [] | Some v \<Rightarrow> if v = [] then [] else [(''filter[name]'', QStr v)]) @
         (case email of None \<Rightarrow> [] | Some v \<Rightarrow> if v = [] then [] else [(''filter[email]'', QStr v)]) @
         (case date_from of None \<Rightarrow> [] | Some d \<Rightarrow> [(''filter[dateFrom]'', QStr (isoformat d))]) @
         (case date_to of None \<Rightarrow> [] | Some d \<Rightarrow> [(''filter[dateTo]'', QStr (isoformat d))])"
  have n: "map_of ?ps ''filter[name]'' =
        (case name of None \<Rightarrow> None | Some v \<Rightarrow> if v = [] then None else Some (QStr v))"
    by (cases name; cases email; cases date_from; cases date_to; simp)
  have e: "map_of ?ps ''filter[email]'' =
        (case email of None \<Rightarrow> None | Some v \<Rightarrow> if v = [] then None else Some (QStr v))"
    by (cases name; cases email; cases date_from; cases date_to; simp)
  have f: "map_of ?ps ''filter[dateFrom]'' =
        (case date_from of None \<Rightarrow> None | Some d \<Rightarrow> Some (QStr (isoformat d)))"
    by (cases name; cases email; cases date_from; cases date_to; simp)
  have t: "map_of ?ps ''filter[dateTo]'' =
        (case date_to of None \<Rightarrow> None | Some d \<Rightarrow> Some (QStr (isoformat d)))"
    by (cases name; cases email; cases date_from; cases date_to; simp)
  have k: "set (map fst ?ps) \<subseteq>
        {''filter[name]'', ''filter[email]'', ''filter[dateFrom]'', ''filter[dateTo]''}"
    by (cases name; cases email; cases date_from; cases date_to; simp)
  have d: "distinct (map fst ?ps)"
    by (cases name; cases email; cases date_from; cases date_to; simp)
  define rq where "rq =
     \<lparr>req_method = GET, req_url = ''https://usernzt.retailcrm.ru/api/v5/customers'',
      req_headers = hdrs, req_params = ?ps, req_data = []\<rparr>"
  have p: "req_params rq = ?ps"
    by (simp add: rq_def)
  have s: "sent (get_customers hdrs upstream name email date_from date_to) = [rq]"
    by (simp only: get_customers_sent rq_def)
  have m: "req_method rq = GET"
    and u: "req_url rq = ''https://usernzt.retailcrm.ru/api/v5/customers''"
    by (simp_all add: rq_def)
  note i1 = iso [OF assms(1)] and i2 = iso [OF assms(2)]
  from s m u n e f t k d i1 i2 show ?thesis
    unfolding p [symmetric] by blast
qed


theorem get_customers_query_witness:
  "valid_date \<lparr>year = 2023, month = 1, day = 1\<rparr> \<and>
   (\<exists>rq. sent (get_customers (headers Map.empty) (answering customers_found)
      (Some ''Ivan'') (Some []) (Some \<lparr>year = 2023, month = 1, day = 1\<rparr>) None) = [rq] \<and>
      req_method rq = GET \<and>
      req_url rq = ''https://usernzt.retailcrm.ru/api/v5/customers'' \<and>
      map_of (req_params rq) ''filter[name]'' = Some (QStr ''Ivan'') \<and>
      map_of (req_params rq) ''filter[email]'' = None \<and>
      map_of (req_params rq) ''filter[dateFrom]'' = Some (QStr ''2023-01-01'') \<and>
      map_of (req_params rq) ''filter[dateTo]'' = None \<and>
      set (map fst (req_params rq)) \<subseteq>
        {''filter[name]'', ''filter[email]'', ''filter[dateFrom]'', ''filter[dateTo]''} \<and>
      distinct (map fst (req_params rq)) \<and>
      is_iso_date ''2023-01-01'' \<and>
      read_iso_date ''2023-01-01'' = \<lparr>year = 2023, month = 1, day = 1\<rparr>)"
proof -
  let ?d = "\<lparr>year = 2023, month = 1, day = 1\<rparr>"
  have v: "valid_date ?d"
    by (simp add: valid_date_def days_in_month_def)
  have "isoformat ?d = ''2023-01-01''"
    by code_simp
  then have i: "isoformat \<lparr>year = 2023, month = Suc 0, day = Suc 0\<rparr> = ''2023-01-01''"
    by simp
  have h1: "case Some ?d of None \<Rightarrow> True | Some d \<Rightarrow> valid_date d"
    using v by simp
  have h2: "case None :: date option of None \<Rightarrow> True | Some d \<Rightarrow> valid_date d"
    by simp
  from get_customers_query [OF h1 h2, of "headers Map.empty" "answering customers_found"
      "Some ''Ivan''" "Some []"] v
  show ?thesis
    by (simp add: i)
qed

text \<open>
  C7 as stated fails: \<^verbatim>\<open>GET /customer_list/?name=\<close> supplies the name filter, as the
  empty string, and the outbound query has no \<^verbatim>\<open>filter[name]\<close>.
\<close>

theorem get_customers_empty_name_counterexample:
  "(Some [] :: string option) \<noteq> None \<and>
   ''filter[name]'' \<notin> set (map fst (concat (map req_params
      (sent (get_customers (headers Map.empty) (answering customers_found)
         (Some []) None None None)))))"
  by (simp add: get_customers_sent)

text \<open>
  C8. \<^verbatim>\<open>get_orders\<close> makes one call, a \<^verbatim>\<open>GET\<close> to the upstream's \<^verbatim>\<open>/orders\<close> with
  the single query parameter \<^verbatim>\<open>filter[customerId]\<close>, whose value is the customer id of
  the local path.
\<close>

theorem get_orders_request:
  "sent (get_orders hdrs upstream customer_id) =
     [\<lparr>req_method = GET, req_url = ''https://usernzt.retailcrm.ru/api/v5/orders'',
       req_headers = hdrs, req_params = [(''filter[customerId]'', QInt customer_id)],
       req_data = []\<rparr>]"
  by (rule get_orders_sent)

theorem get_orders_request_witness:
  "map req_params (sent (get_orders (headers Map.empty) (answering customers_found) 17)) =
     [[(''filter[customerId]'', QInt 17)]]"
  using get_orders_request [of "headers Map.empty" "answering customers_found" 17] by simp





text \<open>
  C10. \<^verbatim>\<open>get_customers\<close> run with the empty string as \<^verbatim>\<open>name\<close> makes the calls and
  ends as it does with \<^verbatim>\<open>name\<close> left out, and likewise for \<^verbatim>\<open>email\<close>; in both runs the
  outbound query is without the filter's key.
\<close>

theorem get_customers_empty_filter_omitted:
  "get_customers hdrs upstream (Some []) email date_from date_to =
     get_customers hdrs upstream None email date_from date_to \<and>
   get_customers hdrs upstream name (Some []) date_from date_to =
     get_customers hdrs upstream name None date_from date_to \<and>
   ''filter[name]'' \<notin> set (map fst (concat (map req_params
      (sent (get_customers hdrs upstream (Some []) email date_from date_to))))) \<and>
   ''filter[email]'' \<notin> set (map fst (concat (map req_params
      (sent (get_customers hdrs upstream name (Some []) date_from date_to)))))"
proof -
  have 1: "get_customers hdrs upstream (Some []) email date_from date_to =
     get_customers hdrs upstream None email date_from date_to"
    by (simp add: get_customers_def)
  have 2: "get_customers hdrs upstream name (Some []) date_from date_to =
     get_customers hdrs upstream name None date_from date_to"
    by (simp add: get_customers_def)
  have 3: "''filter[name]'' \<notin> set (map fst (concat (map req_params
      (sent (get_customers hdrs upstream (Some []) email date_from date_to)))))"
    by (cases email; cases date_from; cases date_to; simp add: get_customers_sent)
  have 4: "''filter[email]'' \<notin> set (map fst (concat (map req_params
      (sent (get_customers hdrs upstream name (Some []) date_from date_to)))))"
    by (cases name; cases date_from; cases date_to; simp add: get_customers_sent)
  from 1 2 3 4 show ?thesis by blast
qed

theorem get_customers_empty_filter_omitted_witness:
  "map req_params (sent (get_customers (headers Map.empty) (answering customers_found)
      (Some []) (Some ''ivan@example.com'') None None)) =
   map req_params (sent (get_customers (headers Map.empty) (answering customers_found)
      None (Some ''ivan@example.com'') None None)) \<and>
   map req_params (sent (get_customers (headers Map.empty) (answering customers_found)
      (Some []) (Some ''ivan@example.com'') None None)) =
     [[(''filter[email]'', QStr ''ivan@example.com'')]]"
  using get_customers_empty_filter_omitted [of "headers Map.empty" "answering customers_found"
      "Some ''ivan@example.com''" None None None]
  by (simp add: get_customers_sent)

end
